theory Spec2Isabelle
  imports Complex_Main "HOL-Library.AList"
begin

section \<open>Values of the program\<close>

text \<open>
  The server (\<^verbatim>\<open>server.py\<close>) handles the values that \<^verbatim>\<open>json.loads\<close> produces:
  \<^verbatim>\<open>None\<close>, booleans, integers, floats, strings, lists and dictionaries. A dictionary is an
  association list read with \<open>map_of\<close>; the decoder lists every key once, in insertion
  order. A character stands for a code point below 256. Non-finite floats are not
  represented.
\<close>

datatype json =
    JNull
  | JBool bool
  | JInt int
  | JFloat real
  | JStr string
  | JArr "json list"
  | JObj "(string \<times> json) list"

text \<open>Python's truth value of an object, as \<^verbatim>\<open>if x\<close>, \<^verbatim>\<open>not x\<close> and \<^verbatim>\<open>x or y\<close> read it.\<close>

fun truthy :: "json \<Rightarrow> bool" where
  "truthy JNull = False"
| "truthy (JBool b) = b"
| "truthy (JInt n) = (n \<noteq> 0)"
| "truthy (JFloat r) = (r \<noteq> 0)"
| "truthy (JStr s) = (s \<noteq> [])"
| "truthy (JArr xs) = (xs \<noteq> [])"
| "truthy (JObj kv) = (kv \<noteq> [])"

text \<open>\<^verbatim>\<open>x or y\<close>\<close>

definition py_or :: "json \<Rightarrow> json \<Rightarrow> json" where
  "py_or x y = (if truthy x then x else y)"

text \<open>\<^verbatim>\<open>isinstance(x, dict)\<close> and \<^verbatim>\<open>isinstance(x, str)\<close>\<close>

fun isinstance_dict :: "json \<Rightarrow> bool" where
  "isinstance_dict (JObj kv) = True"
| "isinstance_dict _ = False"

fun isinstance_str :: "json \<Rightarrow> bool" where
  "isinstance_str (JStr s) = True"
| "isinstance_str _ = False"

text \<open>The items of a dictionary and the text of a string; both are only read behind the
  matching \<open>isinstance\<close> test.\<close>

fun dict_items :: "json \<Rightarrow> (string \<times> json) list" where
  "dict_items (JObj kv) = kv"
| "dict_items _ = []"

fun str_text :: "json \<Rightarrow> string" where
  "str_text (JStr s) = s"
| "str_text _ = []"

text \<open>
  The exceptions the code can meet. \<open>HTTPStatusError\<close> (raised by
  \<^verbatim>\<open>raise_for_status\<close>, with the status code and the body of the response) and
  \<open>TransportError\<close> (connection refused, time-out, connection dropped) are the two
  subclasses of \<^verbatim>\<open>httpx.HTTPError\<close>; the others are ordinary Python exceptions.
\<close>

datatype error =
    HTTPStatusError nat string
  | TransportError string
  | JSONDecodeError
  | AttributeError
  | TypeError
  | KeyError
  | OverflowError

fun is_HTTPError :: "error \<Rightarrow> bool" where
  "is_HTTPError (HTTPStatusError code body) = True"
| "is_HTTPError (TransportError d) = True"
| "is_HTTPError _ = False"

text \<open>\<^verbatim>\<open>d.get(k)\<close>, \<^verbatim>\<open>d.get(k, default)\<close>, \<^verbatim>\<open>k in d\<close> and \<^verbatim>\<open>d[k]\<close> on a dictionary.\<close>

definition dict_get :: "(string \<times> json) list \<Rightarrow> string \<Rightarrow> json" where
  "dict_get d k = (case map_of d k of Some v \<Rightarrow> v | None \<Rightarrow> JNull)"

definition dict_get_default :: "(string \<times> json) list \<Rightarrow> string \<Rightarrow> json \<Rightarrow> json" where
  "dict_get_default d k dflt = (case map_of d k of Some v \<Rightarrow> v | None \<Rightarrow> dflt)"

definition dict_contains :: "string \<Rightarrow> (string \<times> json) list \<Rightarrow> bool" where
  "dict_contains k d = (case map_of d k of Some v \<Rightarrow> True | None \<Rightarrow> False)"

definition getitem :: "(string \<times> json) list \<Rightarrow> string \<Rightarrow> error + json" where
  "getitem d k = (case map_of d k of Some v \<Rightarrow> Inr v | None \<Rightarrow> Inl KeyError)"

text \<open>\<^verbatim>\<open>x.get(k)\<close> on any object: only a dictionary has the method.\<close>

fun obj_get :: "json \<Rightarrow> string \<Rightarrow> error + json" where
  "obj_get (JObj d) k = Inr (dict_get d k)"
| "obj_get _ k = Inl AttributeError"

fun obj_get_default :: "json \<Rightarrow> string \<Rightarrow> json \<Rightarrow> error + json" where
  "obj_get_default (JObj d) k dflt = Inr (dict_get_default d k dflt)"
| "obj_get_default _ k dflt = Inl AttributeError"

section \<open>Strings\<close>

text \<open>The characters \<^verbatim>\<open>str.strip()\<close> removes, among the code points below 256.\<close>

definition is_space :: "char \<Rightarrow> bool" where
  "is_space c = (c \<in> set [CHR 0x09, CHR 0x0A, CHR 0x0B, CHR 0x0C, CHR 0x0D,
                          CHR 0x1C, CHR 0x1D, CHR 0x1E, CHR 0x1F, CHR 0x20,
                          CHR 0x85, CHR 0xA0])"

definition strip :: "string \<Rightarrow> string" where
  "strip s = rev (dropWhile is_space (rev (dropWhile is_space s)))"

text \<open>\<^verbatim>\<open>s.rstrip(cs)\<close> and \<^verbatim>\<open>s.lstrip(cs)\<close>\<close>

definition rstrip_chars :: "string \<Rightarrow> string \<Rightarrow> string" where
  "rstrip_chars cs s = rev (dropWhile (\<lambda>c. c \<in> set cs) (rev s))"

definition lstrip_chars :: "string \<Rightarrow> string \<Rightarrow> string" where
  "lstrip_chars cs s = dropWhile (\<lambda>c. c \<in> set cs) s"

text \<open>\<^verbatim>\<open>sep.join(parts)\<close>: the parts separated by \<open>sep\<close>; a part that is not a string
  raises \<^verbatim>\<open>TypeError\<close>.\<close>

fun join_strs :: "string \<Rightarrow> string list \<Rightarrow> string" where
  "join_strs sep [] = []"
| "join_strs sep [s] = s"
| "join_strs sep (s # t # ts) = s @ sep @ join_strs sep (t # ts)"

definition str_join :: "string \<Rightarrow> json list \<Rightarrow> error + string" where
  "str_join sep parts =
     (if list_all isinstance_str parts then Inr (join_strs sep (map str_text parts))
      else Inl TypeError)"

definition newline :: string where
  "newline = [CHR 0x0A]"

section \<open>The collaborators of the core\<close>

text \<open>
  One HTTP call: \<^verbatim>\<open>client.request(method, url, **kwargs)\<close>, where the keyword argument
  is \<^verbatim>\<open>json=payload\<close> or nothing.
\<close>

record http_req =
  req_method :: string
  req_url :: string
  req_json :: "json option"

record http_resp =
  resp_status :: nat
  resp_content :: string

text \<open>
  A streamed response: its status, the lines \<^verbatim>\<open>aiter_lines\<close> yields, and how the body
  ends: \<open>None\<close> at end of file, \<open>Some d\<close> when the connection fails after the last of
  these lines.
\<close>

record stream_resp =
  st_status :: nat
  st_lines :: "string list"
  st_drop :: "string option"

text \<open>
  What the program takes from its environment and its libraries: the configured base
  address, the transport (\<open>Inl d\<close> is a transport failure), \<^verbatim>\<open>json.loads\<close> (\<open>None\<close> is
  \<^verbatim>\<open>JSONDecodeError\<close>), \<^verbatim>\<open>json.dumps\<close> with and without \<^verbatim>\<open>indent=2\<close>, the text
  \<^verbatim>\<open>str(e)\<close> of an exception, the text an f-string gives a value that is not a string, and
  the text of \<^verbatim>\<open>f"{size / (1024**2):.0f}"\<close> for a number (\<open>None\<close> when the quotient
  does not fit a float).
\<close>

record runtime =
  OLLAMA_BASE :: string
  http_request :: "http_req \<Rightarrow> string + http_resp"
  http_stream :: "http_req \<Rightarrow> string + stream_resp"
  json_loads :: "string \<Rightarrow> json option"
  json_dumps :: "json \<Rightarrow> string"
  json_dumps_indent2 :: "json \<Rightarrow> string"
  exc_str :: "error \<Rightarrow> string"
  py_str :: "json \<Rightarrow> string"
  format_mb :: "json \<Rightarrow> string option"

text \<open>A value inside an f-string.\<close>

definition fmt :: "runtime \<Rightarrow> json \<Rightarrow> string" where
  "fmt rt v = (case v of JStr s \<Rightarrow> s | _ \<Rightarrow> py_str rt v)"

section \<open>The unary request executor\<close>

definition OLLAMA_API :: "runtime \<Rightarrow> string" where
  "OLLAMA_API rt = rstrip_chars ''/'' (OLLAMA_BASE rt) @ ''/api''"

definition api_url :: "runtime \<Rightarrow> string \<Rightarrow> string" where
  "api_url rt path = rstrip_chars ''/'' (OLLAMA_API rt) @ ''/'' @ lstrip_chars ''/'' path"

text \<open>\<^verbatim>\<open>resp.raise_for_status()\<close>: every status outside 200..299 raises.\<close>

definition raise_for_status :: "nat \<Rightarrow> string \<Rightarrow> error + unit" where
  "raise_for_status code body =
     (if 200 \<le> code \<and> code \<le> 299 then Inr () else Inl (HTTPStatusError code body))"

text \<open>\<^verbatim>\<open>_request(method, path, **kwargs)\<close>\<close>

definition request :: "runtime \<Rightarrow> string \<Rightarrow> string \<Rightarrow> json option \<Rightarrow> error + json" where
  "request rt method path kwargs =
     (let url = api_url rt path in
      case http_request rt \<lparr>req_method = method, req_url = url, req_json = kwargs\<rparr> of
        Inl d \<Rightarrow> Inl (TransportError d)
      | Inr resp \<Rightarrow>
          (case raise_for_status (resp_status resp) (resp_content resp) of
             Inl e \<Rightarrow> Inl e
           | Inr u \<Rightarrow>
               if resp_content resp \<noteq> [] then
                 (case json_loads rt (resp_content resp) of
                    None \<Rightarrow> Inl JSONDecodeError
                  | Some v \<Rightarrow> Inr v)
               else Inr (JObj [])))"

section \<open>The stream accumulator\<close>

text \<open>
  The two \<^verbatim>\<open>if/elif\<close> chains of the loop body of \<^verbatim>\<open>_request_stream\<close>, for a decoded
  dictionary \<open>chunk\<close> and \<^verbatim>\<open>msg = chunk.get("message") or {}\<close>.
\<close>

definition append_thinking ::
  "(string \<times> json) list \<Rightarrow> json \<Rightarrow> json list \<Rightarrow> error + json list" where
  "append_thinking chunk msg thinking_parts =
     (if isinstance_dict msg \<and> truthy (dict_get (dict_items msg) ''thinking'') then
        (case getitem (dict_items msg) ''thinking'' of
           Inl e \<Rightarrow> Inl e
         | Inr t \<Rightarrow> Inr (thinking_parts @ [t]))
      else if truthy (dict_get chunk ''thinking'') then
        (case getitem chunk ''thinking'' of
           Inl e \<Rightarrow> Inl e
         | Inr t \<Rightarrow> Inr (thinking_parts @ [t]))
      else Inr thinking_parts)"

definition append_content ::
  "string \<Rightarrow> (string \<times> json) list \<Rightarrow> json \<Rightarrow> json list \<Rightarrow> error + json list" where
  "append_content content_key chunk msg content_parts =
     (if isinstance_dict msg \<and> dict_contains content_key (dict_items msg) then
        (case getitem (dict_items msg) content_key of
           Inl e \<Rightarrow> Inl e
         | Inr c \<Rightarrow> Inr (content_parts @ [py_or c (JStr [])]))
      else if dict_contains content_key chunk then
        (case getitem chunk content_key of
           Inl e \<Rightarrow> Inl e
         | Inr c \<Rightarrow> Inr (content_parts @ [py_or c (JStr [])]))
      else Inr content_parts)"

text \<open>The loop body after \<^verbatim>\<open>json.loads\<close>; the state is
  \<open>(content_parts, thinking_parts)\<close>.\<close>

definition chunk_step ::
  "string \<Rightarrow> json list \<times> json list \<Rightarrow> json \<Rightarrow> error + (json list \<times> json list)" where
  "chunk_step content_key st chunk =
     (case obj_get chunk ''message'' of
        Inl e \<Rightarrow> Inl e
      | Inr m \<Rightarrow>
          (let msg = py_or m (JObj []) in
           case append_thinking (dict_items chunk) msg (snd st) of
             Inl e \<Rightarrow> Inl e
           | Inr thinking_parts \<Rightarrow>
               (case append_content content_key (dict_items chunk) msg (fst st) of
                  Inl e \<Rightarrow> Inl e
                | Inr content_parts \<Rightarrow> Inr (content_parts, thinking_parts))))"

text \<open>\<^verbatim>\<open>async for line in resp.aiter_lines()\<close>\<close>

fun consume ::
  "(string \<Rightarrow> json option) \<Rightarrow> string \<Rightarrow> string list \<Rightarrow> json list \<times> json list
     \<Rightarrow> error + (json list \<times> json list)" where
  "consume loads content_key [] st = Inr st"
| "consume loads content_key (l # ls) st =
     (let line = strip l in
      if line = [] then consume loads content_key ls st
      else
        (case loads line of
           None \<Rightarrow> consume loads content_key ls st
         | Some chunk \<Rightarrow>
             (case chunk_step content_key st chunk of
                Inl e \<Rightarrow> Inl e
              | Inr st' \<Rightarrow> consume loads content_key ls st')))"

text \<open>The end of \<^verbatim>\<open>_request_stream\<close>, after the loop.\<close>

definition finish :: "json list \<times> json list \<Rightarrow> error + string" where
  "finish st =
     (case str_join [] (fst st) of
        Inl e \<Rightarrow> Inl e
      | Inr content \<Rightarrow>
          if snd st \<noteq> [] then
            (case str_join '' '' (snd st) of
               Inl e \<Rightarrow> Inl e
             | Inr t \<Rightarrow> Inr (''[Thinking] '' @ strip t @ newline @ newline @ content))
          else Inr content)"

text \<open>Reading the body of an open stream: the lines, then the way the body ends.\<close>

definition read_stream ::
  "(string \<Rightarrow> json option) \<Rightarrow> string \<Rightarrow> stream_resp \<Rightarrow> error + (json list \<times> json list)" where
  "read_stream loads content_key resp =
     (case consume loads content_key (st_lines resp) ([], []) of
        Inl e \<Rightarrow> Inl e
      | Inr st \<Rightarrow>
          (case st_drop resp of
             Some d \<Rightarrow> Inl (TransportError d)
           | None \<Rightarrow> Inr st))"

text \<open>The whole fold over one open stream: the loop, then the final string.\<close>

definition accumulate ::
  "(string \<Rightarrow> json option) \<Rightarrow> string \<Rightarrow> stream_resp \<Rightarrow> error + string" where
  "accumulate loads content_key resp =
     (case read_stream loads content_key resp of
        Inl e \<Rightarrow> Inl e
      | Inr st \<Rightarrow> finish st)"

text \<open>The call \<^verbatim>\<open>client.stream("POST", url, json=payload)\<close> with
  \<^verbatim>\<open>payload = {**payload, "stream": True}\<close>.\<close>

definition stream_req :: "runtime \<Rightarrow> string \<Rightarrow> (string \<times> json) list \<Rightarrow> http_req" where
  "stream_req rt path payload =
     \<lparr>req_method = ''POST'', req_url = api_url rt path,
      req_json = Some (JObj (AList.update ''stream'' (JBool True) payload))\<rparr>"

text \<open>\<^verbatim>\<open>_request_stream(path, payload, content_key)\<close>. The body of a streamed response
  has not been read when \<^verbatim>\<open>raise_for_status\<close> runs.\<close>

definition request_stream ::
  "runtime \<Rightarrow> string \<Rightarrow> (string \<times> json) list \<Rightarrow> string \<Rightarrow> error + string" where
  "request_stream rt path payload content_key =
     (case http_stream rt (stream_req rt path payload) of
        Inl d \<Rightarrow> Inl (TransportError d)
      | Inr resp \<Rightarrow>
          (case raise_for_status (st_status resp) [] of
             Inl e \<Rightarrow> Inl e
           | Inr u \<Rightarrow> accumulate (json_loads rt) content_key resp))"

section \<open>Tool operations\<close>

text \<open>
  Every tool is one \<^verbatim>\<open>try\<close> block followed by the same two \<^verbatim>\<open>except\<close> clauses:
  \<^verbatim>\<open>except httpx.HTTPError as e: return f"Ollama request failed: {e}"\<close> (with a longer
  tail in \<^verbatim>\<open>list_models\<close>) and \<^verbatim>\<open>except Exception as e: return f"Error: {e}"\<close>.
  A tool's outcome is \<open>Inl\<close> when an exception leaves it and \<open>Inr\<close> when it returns.
  Writing to the log is not modelled.
\<close>

definition failure_text :: "runtime \<Rightarrow> string \<Rightarrow> error \<Rightarrow> string" where
  "failure_text rt tail e =
     (if is_HTTPError e then ''Ollama request failed: '' @ exc_str rt e @ tail
      else ''Error: '' @ exc_str rt e)"

definition except_clauses :: "runtime \<Rightarrow> string \<Rightarrow> error + json \<Rightarrow> error + json" where
  "except_clauses rt tail body =
     (case body of
        Inr v \<Rightarrow> Inr v
      | Inl e \<Rightarrow> Inr (JStr (failure_text rt tail e)))"

text \<open>\<^verbatim>\<open>for m in x\<close> and \<^verbatim>\<open>len(x)\<close> on any object.\<close>

fun py_iter :: "json \<Rightarrow> error + json list" where
  "py_iter (JArr xs) = Inr xs"
| "py_iter (JObj kv) = Inr (map (\<lambda>p. JStr (fst p)) kv)"
| "py_iter (JStr s) = Inr (map (\<lambda>c. JStr [c]) s)"
| "py_iter _ = Inl TypeError"

fun py_len :: "json \<Rightarrow> error + nat" where
  "py_len (JArr xs) = Inr (length xs)"
| "py_len (JObj kv) = Inr (length kv)"
| "py_len (JStr s) = Inr (length s)"
| "py_len _ = Inl TypeError"

subsection \<open>list_models\<close>

text \<open>\<^verbatim>\<open>f"{size / (1024**2):.0f} MB" if size else "?"\<close>\<close>

definition size_mb :: "runtime \<Rightarrow> json \<Rightarrow> error + string" where
  "size_mb rt sz =
     (if truthy sz then
        (case sz of
           JStr s \<Rightarrow> Inl TypeError
         | JArr xs \<Rightarrow> Inl TypeError
         | JObj kv \<Rightarrow> Inl TypeError
         | _ \<Rightarrow> (case format_mb rt sz of
                  None \<Rightarrow> Inl OverflowError
                | Some t \<Rightarrow> Inr (t @ '' MB'')))
      else Inr ''?'')"

fun model_lines :: "runtime \<Rightarrow> json list \<Rightarrow> string list \<Rightarrow> error + string list" where
  "model_lines rt [] lines = Inr lines"
| "model_lines rt (m # ms) lines =
     (case obj_get_default m ''name'' (JStr ''?'') of
        Inl e \<Rightarrow> Inl e
      | Inr name \<Rightarrow>
          (case obj_get m ''size'' of
             Inl e \<Rightarrow> Inl e
           | Inr sz \<Rightarrow>
               (case size_mb rt sz of
                  Inl e \<Rightarrow> Inl e
                | Inr mb \<Rightarrow>
                    model_lines rt ms (lines @ [''- '' @ fmt rt name @ '' ('' @ mb @ '')'']))))"

definition list_models_try :: "runtime \<Rightarrow> error + json" where
  "list_models_try rt =
     (case request rt ''GET'' ''tags'' None of
        Inl e \<Rightarrow> Inl e
      | Inr data \<Rightarrow>
          (case obj_get data ''models'' of
             Inl e \<Rightarrow> Inl e
           | Inr ms \<Rightarrow>
               (let models = py_or ms (JArr []) in
                if \<not> truthy models then
                  Inr (JStr ''No models installed. Use pull_model to pull a model (e.g. llama3.2).'')
                else
                  (case py_iter models of
                     Inl e \<Rightarrow> Inl e
                   | Inr xs \<Rightarrow>
                       (case model_lines rt xs [] of
                          Inl e \<Rightarrow> Inl e
                        | Inr lines \<Rightarrow> Inr (JStr (join_strs newline lines)))))))"

definition list_models :: "runtime \<Rightarrow> error + json" where
  "list_models rt =
     except_clauses rt (''. Is Ollama running at '' @ OLLAMA_BASE rt @ ''?'') (list_models_try rt)"

subsection \<open>list_running_models\<close>

fun running_lines :: "runtime \<Rightarrow> json list \<Rightarrow> error + string list" where
  "running_lines rt [] = Inr []"
| "running_lines rt (m # ms) =
     (case obj_get_default m ''name'' (JStr ''?'') of
        Inl e \<Rightarrow> Inl e
      | Inr name \<Rightarrow>
          (case running_lines rt ms of
             Inl e \<Rightarrow> Inl e
           | Inr ls \<Rightarrow> Inr ((''- '' @ fmt rt name) # ls)))"

definition list_running_models_try :: "runtime \<Rightarrow> error + json" where
  "list_running_models_try rt =
     (case request rt ''GET'' ''ps'' None of
        Inl e \<Rightarrow> Inl e
      | Inr data \<Rightarrow>
          (case obj_get data ''models'' of
             Inl e \<Rightarrow> Inl e
           | Inr ms \<Rightarrow>
               (let models = py_or ms (JArr []) in
                if \<not> truthy models then Inr (JStr ''No models currently loaded.'')
                else
                  (case py_iter models of
                     Inl e \<Rightarrow> Inl e
                   | Inr xs \<Rightarrow>
                       (case running_lines rt xs of
                          Inl e \<Rightarrow> Inl e
                        | Inr ls \<Rightarrow> Inr (JStr (join_strs newline ls)))))))"

definition list_running_models :: "runtime \<Rightarrow> error + json" where
  "list_running_models rt = except_clauses rt [] (list_running_models_try rt)"

subsection \<open>show_model\<close>

definition show_model_try :: "runtime \<Rightarrow> string \<Rightarrow> error + json" where
  "show_model_try rt model =
     (case request rt ''POST'' ''show'' (Some (JObj [(''name'', JStr model)])) of
        Inl e \<Rightarrow> Inl e
      | Inr data \<Rightarrow> Inr (JStr (json_dumps_indent2 rt data)))"

definition show_model :: "runtime \<Rightarrow> string \<Rightarrow> error + json" where
  "show_model rt model = except_clauses rt [] (show_model_try rt model)"

subsection \<open>chat\<close>

text \<open>The non-streaming branch after \<^verbatim>\<open>data = await _request(...)\<close>. Without a thinking
  field the value of \<open>content\<close> is returned as it is.\<close>

definition chat_reply :: "runtime \<Rightarrow> json \<Rightarrow> error + json" where
  "chat_reply rt data =
     (case obj_get data ''message'' of
        Inl e \<Rightarrow> Inl e
      | Inr m \<Rightarrow>
          (let msg = py_or m (JObj []) in
           case obj_get msg ''content'' of
             Inl e \<Rightarrow> Inl e
           | Inr c \<Rightarrow>
               (let content = py_or c (JStr []) in
                case obj_get msg ''thinking'' of
                  Inl e \<Rightarrow> Inl e
                | Inr t \<Rightarrow>
                    if truthy t then
                      Inr (JStr (''[Thinking] '' @ fmt rt t @ newline @ newline @ fmt rt content))
                    else Inr content)))"

definition chat_payload :: "string \<Rightarrow> json \<Rightarrow> (string \<times> json) list" where
  "chat_payload model messages =
     [(''model'', JStr model), (''messages'', messages), (''stream'', JBool False)]"

definition chat_try :: "runtime \<Rightarrow> string \<Rightarrow> json \<Rightarrow> bool \<Rightarrow> error + json" where
  "chat_try rt model messages stream =
     (if stream then
        (case request_stream rt ''chat''
                [(''model'', JStr model), (''messages'', messages)] ''content'' of
           Inl e \<Rightarrow> Inl e
         | Inr s \<Rightarrow> Inr (JStr s))
      else
        (case request rt ''POST'' ''chat'' (Some (JObj (chat_payload model messages))) of
           Inl e \<Rightarrow> Inl e
         | Inr data \<Rightarrow> chat_reply rt data))"

definition chat :: "runtime \<Rightarrow> string \<Rightarrow> json \<Rightarrow> bool \<Rightarrow> error + json" where
  "chat rt model messages stream = except_clauses rt [] (chat_try rt model messages stream)"

subsection \<open>generate\<close>

definition generate_reply :: "runtime \<Rightarrow> json \<Rightarrow> error + json" where
  "generate_reply rt data =
     (case obj_get data ''response'' of
        Inl e \<Rightarrow> Inl e
      | Inr r \<Rightarrow>
          (let response = py_or r (JStr []) in
           case obj_get data ''thinking'' of
             Inl e \<Rightarrow> Inl e
           | Inr t \<Rightarrow>
               if truthy t then
                 Inr (JStr (''[Thinking] '' @ fmt rt t @ newline @ newline @ fmt rt response))
               else Inr response))"

text \<open>The payload before the branch on \<open>stream\<close>; \<^verbatim>\<open>if system:\<close> holds for a
  non-empty string.\<close>

definition generate_payload :: "string \<Rightarrow> string \<Rightarrow> string option \<Rightarrow> (string \<times> json) list" where
  "generate_payload model prompt system =
     (let payload = [(''model'', JStr model), (''prompt'', JStr prompt)] in
      case system of
        None \<Rightarrow> payload
      | Some s \<Rightarrow> if s \<noteq> [] then AList.update ''system'' (JStr s) payload else payload)"

definition generate_try ::
  "runtime \<Rightarrow> string \<Rightarrow> string \<Rightarrow> string option \<Rightarrow> bool \<Rightarrow> error + json" where
  "generate_try rt model prompt system stream =
     (let payload = generate_payload model prompt system in
      if stream then
        (case request_stream rt ''generate'' payload ''response'' of
           Inl e \<Rightarrow> Inl e
         | Inr s \<Rightarrow> Inr (JStr s))
      else
        (case request rt ''POST'' ''generate''
                (Some (JObj (AList.update ''stream'' (JBool False) payload))) of
           Inl e \<Rightarrow> Inl e
         | Inr data \<Rightarrow> generate_reply rt data))"

definition generate ::
  "runtime \<Rightarrow> string \<Rightarrow> string \<Rightarrow> string option \<Rightarrow> bool \<Rightarrow> error + json" where
  "generate rt model prompt system stream =
     except_clauses rt [] (generate_try rt model prompt system stream)"

subsection \<open>embed\<close>

definition embed_try :: "runtime \<Rightarrow> string \<Rightarrow> json \<Rightarrow> error + json" where
  "embed_try rt model text =
     (let inputs = (if isinstance_str text then JArr [text] else text);
          payload = JObj [(''model'', JStr model), (''input'', inputs)] in
      case request rt ''POST'' ''embed'' (Some payload) of
        Inl e \<Rightarrow> Inl e
      | Inr data \<Rightarrow>
          (case obj_get data ''embeddings'' of
             Inl e \<Rightarrow> Inl e
           | Inr em \<Rightarrow>
               (let embeddings = py_or em (JArr []) in
                case py_len embeddings of
                  Inl e \<Rightarrow> Inl e
                | Inr n \<Rightarrow>
                    Inr (JStr (json_dumps rt
                      (JObj [(''embeddings'', embeddings), (''count'', JInt (int n))]))))))"

definition embed :: "runtime \<Rightarrow> string \<Rightarrow> json \<Rightarrow> error + json" where
  "embed rt model text = except_clauses rt [] (embed_try rt model text)"

subsection \<open>pull_model and delete_model\<close>

definition pull_payload :: "string \<Rightarrow> bool \<Rightarrow> (string \<times> json) list" where
  "pull_payload name insecure =
     (let payload = [(''name'', JStr name)] in
      if insecure then AList.update ''insecure'' (JBool True) payload else payload)"

definition pull_model_try :: "runtime \<Rightarrow> string \<Rightarrow> bool \<Rightarrow> error + json" where
  "pull_model_try rt name insecure =
     (case request rt ''POST'' ''pull'' (Some (JObj (pull_payload name insecure))) of
        Inl e \<Rightarrow> Inl e
      | Inr data \<Rightarrow>
          (case obj_get_default data ''status'' (JStr ''unknown'') of
             Inl e \<Rightarrow> Inl e
           | Inr status \<Rightarrow>
               Inr (JStr (''Pull status: '' @ fmt rt status @ ''. Check Ollama for progress.''))))"

definition pull_model :: "runtime \<Rightarrow> string \<Rightarrow> bool \<Rightarrow> error + json" where
  "pull_model rt name insecure = except_clauses rt [] (pull_model_try rt name insecure)"

definition delete_model_try :: "runtime \<Rightarrow> string \<Rightarrow> error + json" where
  "delete_model_try rt name =
     (case request rt ''DELETE'' ''delete'' (Some (JObj [(''name'', JStr name)])) of
        Inl e \<Rightarrow> Inl e
      | Inr data \<Rightarrow> Inr (JStr (''Deleted model: '' @ name)))"

definition delete_model :: "runtime \<Rightarrow> string \<Rightarrow> error + json" where
  "delete_model rt name = except_clauses rt [] (delete_model_try rt name)"

subsection \<open>The registered tools\<close>

text \<open>The functions under \<^verbatim>\<open>@mcp.tool()\<close>, in the order of the file, and a call of one of
  them with its arguments.\<close>

definition tool_names :: "string list" where
  "tool_names = [''list_models'', ''list_running_models'', ''show_model'', ''chat'',
                 ''generate'', ''embed'', ''pull_model'', ''delete_model'']"

datatype tool_call =
    ListModels
  | ListRunningModels
  | ShowModel string
  | Chat string json bool
  | Generate string string "string option" bool
  | Embed string json
  | PullModel string bool
  | DeleteModel string

fun tool_name :: "tool_call \<Rightarrow> string" where
  "tool_name ListModels = ''list_models''"
| "tool_name ListRunningModels = ''list_running_models''"
| "tool_name (ShowModel model) = ''show_model''"
| "tool_name (Chat model messages stream) = ''chat''"
| "tool_name (Generate model prompt system stream) = ''generate''"
| "tool_name (Embed model text) = ''embed''"
| "tool_name (PullModel name insecure) = ''pull_model''"
| "tool_name (DeleteModel name) = ''delete_model''"

fun tool_try :: "runtime \<Rightarrow> tool_call \<Rightarrow> error + json" where
  "tool_try rt ListModels = list_models_try rt"
| "tool_try rt ListRunningModels = list_running_models_try rt"
| "tool_try rt (ShowModel model) = show_model_try rt model"
| "tool_try rt (Chat model messages stream) = chat_try rt model messages stream"
| "tool_try rt (Generate model prompt system stream) = generate_try rt model prompt system stream"
| "tool_try rt (Embed model text) = embed_try rt model text"
| "tool_try rt (PullModel name insecure) = pull_model_try rt name insecure"
| "tool_try rt (DeleteModel name) = delete_model_try rt name"

fun call_tool :: "runtime \<Rightarrow> tool_call \<Rightarrow> error + json" where
  "call_tool rt ListModels = list_models rt"
| "call_tool rt ListRunningModels = list_running_models rt"
| "call_tool rt (ShowModel model) = show_model rt model"
| "call_tool rt (Chat model messages stream) = chat rt model messages stream"
| "call_tool rt (Generate model prompt system stream) = generate rt model prompt system stream"
| "call_tool rt (Embed model text) = embed rt model text"
| "call_tool rt (PullModel name insecure) = pull_model rt name insecure"
| "call_tool rt (DeleteModel name) = delete_model rt name"

section \<open>The fold in the words of the specification\<close>

text \<open>
  What one line of the body yields: nothing for a blank line and for a line that does not
  decode, the decoded value otherwise.
\<close>

definition fragment_of :: "(string \<Rightarrow> json option) \<Rightarrow> string \<Rightarrow> json option" where
  "fragment_of loads l = (if strip l = [] then None else loads (strip l))"

text \<open>
  The primary-content field of a fragment: the value under the key inside the
  \<open>message\<close> object when that object has the key, the top-level value otherwise;
  \<open>None\<close> when the field is absent.
\<close>

definition primary_content :: "string \<Rightarrow> (string \<times> json) list \<Rightarrow> json option" where
  "primary_content key c =
     (case map_of c ''message'' of
        Some (JObj m) \<Rightarrow> (case map_of m key of Some v \<Rightarrow> Some v | None \<Rightarrow> map_of c key)
      | _ \<Rightarrow> map_of c key)"

text \<open>What a fragment adds to the content buffer: its field value, the empty string in
  place of a value that counts as false (such as null), nothing when the field is absent.\<close>

definition content_part :: "string \<Rightarrow> (string \<times> json) list \<Rightarrow> json list" where
  "content_part key c =
     (case primary_content key c of None \<Rightarrow> [] | Some v \<Rightarrow> [py_or v (JStr [])])"

text \<open>
  The reasoning a fragment contributes: the non-empty \<open>thinking\<close> value nested under
  \<open>message\<close> if there is one, else the non-empty top-level \<open>thinking\<close> value if there is
  one, else nothing.
\<close>

definition nested_thinking :: "(string \<times> json) list \<Rightarrow> json" where
  "nested_thinking c =
     (case map_of c ''message'' of Some (JObj m) \<Rightarrow> dict_get m ''thinking'' | _ \<Rightarrow> JNull)"

definition fragment_reasoning :: "(string \<times> json) list \<Rightarrow> json list" where
  "fragment_reasoning c =
     (if truthy (nested_thinking c) then [nested_thinking c]
      else if truthy (dict_get c ''thinking'') then [dict_get c ''thinking'']
      else [])"

definition line_content :: "(string \<Rightarrow> json option) \<Rightarrow> string \<Rightarrow> string \<Rightarrow> json list" where
  "line_content loads key l =
     (case fragment_of loads l of Some (JObj c) \<Rightarrow> content_part key c | _ \<Rightarrow> [])"

definition line_reasoning :: "(string \<Rightarrow> json option) \<Rightarrow> string \<Rightarrow> json list" where
  "line_reasoning loads l =
     (case fragment_of loads l of Some (JObj c) \<Rightarrow> fragment_reasoning c | _ \<Rightarrow> [])"

text \<open>The ordered concatenation over the lines of a body, as texts.\<close>

definition stream_content :: "(string \<Rightarrow> json option) \<Rightarrow> string \<Rightarrow> string list \<Rightarrow> string" where
  "stream_content loads key ls = concat (map (\<lambda>l. concat (map str_text (line_content loads key l))) ls)"

definition stream_reasoning :: "(string \<Rightarrow> json option) \<Rightarrow> string list \<Rightarrow> string list" where
  "stream_reasoning loads ls = concat (map (\<lambda>l. map str_text (line_reasoning loads l)) ls)"

text \<open>
  A line of a well-formed body is blank, or noise that does not decode, or one JSON
  object. Its content value is text when it is a string or counts as false; its reasoning
  is text when the contributed value is a string.
\<close>

definition object_line :: "(string \<Rightarrow> json option) \<Rightarrow> string \<Rightarrow> bool" where
  "object_line loads l = (case fragment_of loads l of None \<Rightarrow> True | Some v \<Rightarrow> isinstance_dict v)"

definition content_line :: "(string \<Rightarrow> json option) \<Rightarrow> string \<Rightarrow> string \<Rightarrow> bool" where
  "content_line loads key l =
     (object_line loads l \<and> list_all isinstance_str (line_content loads key l))"

definition text_line :: "(string \<Rightarrow> json option) \<Rightarrow> string \<Rightarrow> string \<Rightarrow> bool" where
  "text_line loads key l =
     (content_line loads key l \<and> list_all isinstance_str (line_reasoning loads l))"


text \<open>
  The unary paths in the words of the specification: a field is text when it is a
  string, null or missing; the reply is the content, behind the reasoning block when the
  thinking field is a non-empty string.
\<close>

definition text_or_null :: "json option \<Rightarrow> bool" where
  "text_or_null x =
     (case x of None \<Rightarrow> True | Some JNull \<Rightarrow> True | Some (JStr s) \<Rightarrow> True | Some _ \<Rightarrow> False)"

definition field_text :: "json option \<Rightarrow> string" where
  "field_text x = (case x of Some (JStr s) \<Rightarrow> s | _ \<Rightarrow> [])"

definition reasoning_prefixed :: "json option \<Rightarrow> string \<Rightarrow> string" where
  "reasoning_prefixed thinking content_text =
     (if field_text thinking = [] then content_text
      else ''[Thinking] '' @ field_text thinking @ newline @ newline @ content_text)"

text \<open>The \<open>message\<close> object of a chat reply; no fields when it is null or missing.\<close>

definition message_or_null :: "(string \<times> json) list \<Rightarrow> bool" where
  "message_or_null data =
     (case map_of data ''message'' of
        None \<Rightarrow> True | Some JNull \<Rightarrow> True | Some (JObj m) \<Rightarrow> True | Some _ \<Rightarrow> False)"

definition message_fields :: "(string \<times> json) list \<Rightarrow> (string \<times> json) list" where
  "message_fields data = (case map_of data ''message'' of Some (JObj m) \<Rightarrow> m | _ \<Rightarrow> [])"

section \<open>A sample environment\<close>

text \<open>
  For the worked examples: the decoder on the texts the examples use (every other text
  counts as not decoding here, as the keep-alive noise and a body of two objects do for
  \<^verbatim>\<open>json.loads\<close>), the class name of an exception as its text, and fixed texts for the
  formatters the examples do not reach.
\<close>

definition demo_loads :: "string \<Rightarrow> json option" where
  \<open>demo_loads = map_of
     [(''{"thinking":"Hmm","response":"","done":false}'',
         JObj [(''thinking'', JStr ''Hmm''), (''response'', JStr []), (''done'', JBool False)]),
      (''{"response":"Yes.","done":true}'',
         JObj [(''response'', JStr ''Yes.''), (''done'', JBool True)]),
      (''{"message":{"content":"Hi"},"done":false}'',
         JObj [(''message'', JObj [(''content'', JStr ''Hi'')]), (''done'', JBool False)]),
      (''{"message":{"content":" there"},"done":true}'',
         JObj [(''message'', JObj [(''content'', JStr '' there'')]), (''done'', JBool True)]),
      (''{"message":{"role":"assistant","content":"Yes.","thinking":"Brief thought."}}'',
         JObj [(''message'', JObj [(''role'', JStr ''assistant''), (''content'', JStr ''Yes.''),
                                   (''thinking'', JStr ''Brief thought.'')])]),
      (''{"response":"Generated text."}'',
         JObj [(''response'', JStr ''Generated text.'')]),
      (''{"status":"success"}'',
         JObj [(''status'', JStr ''success'')]),
      (''[1]'', JArr [JInt 1])]\<close>

fun demo_exc_str :: "error \<Rightarrow> string" where
  "demo_exc_str (HTTPStatusError code body) = ''HTTPStatusError''"
| "demo_exc_str (TransportError d) = d"
| "demo_exc_str JSONDecodeError = ''JSONDecodeError''"
| "demo_exc_str AttributeError = ''AttributeError''"
| "demo_exc_str TypeError = ''TypeError''"
| "demo_exc_str KeyError = ''KeyError''"
| "demo_exc_str OverflowError = ''OverflowError''"

definition demo_runtime ::
  "(http_req \<Rightarrow> string + http_resp) \<Rightarrow> (http_req \<Rightarrow> string + stream_resp) \<Rightarrow> runtime" where
  "demo_runtime send open_stream =
     \<lparr>OLLAMA_BASE = ''http://localhost:11434'',
      http_request = send,
      http_stream = open_stream,
      json_loads = demo_loads,
      json_dumps = (\<lambda>v. ''<json>''),
      json_dumps_indent2 = (\<lambda>v. ''<json>''),
      exc_str = demo_exc_str,
      py_str = (\<lambda>v. ''<value>''),
      format_mb = (\<lambda>v. Some ''0'')\<rparr>"

text \<open>A backend that is down, one that answers every call with a status and a body, and
  one that answers every streamed call with a status, lines and an ending.\<close>

definition backend_down :: "string \<Rightarrow> 'a \<Rightarrow> string + 'b" where
  "backend_down d req = Inl d"

definition backend_answers :: "nat \<Rightarrow> string \<Rightarrow> http_req \<Rightarrow> string + http_resp" where
  "backend_answers code body req = Inr \<lparr>resp_status = code, resp_content = body\<rparr>"

definition backend_streams ::
  "nat \<Rightarrow> string list \<Rightarrow> string option \<Rightarrow> http_req \<Rightarrow> string + stream_resp" where
  "backend_streams code ls ending req = Inr \<lparr>st_status = code, st_lines = ls, st_drop = ending\<rparr>"

section \<open>Properties of the stream accumulator\<close>

lemma append_thinking_obj:
  "append_thinking c (py_or (dict_get c ''message'') (JObj [])) tp = Inr (tp @ fragment_reasoning c)"
  by (auto simp: append_thinking_def fragment_reasoning_def nested_thinking_def py_or_def
        dict_get_def getitem_def
      split: option.splits json.splits)

lemma append_content_obj:
  "append_content key c (py_or (dict_get c ''message'') (JObj [])) cp = Inr (cp @ content_part key c)"
  by (auto simp: append_content_def content_part_def primary_content_def py_or_def
        dict_get_def dict_contains_def getitem_def
      split: option.splits json.splits)

lemma chunk_step_obj:
  "chunk_step key st (JObj c) = Inr (fst st @ content_part key c, snd st @ fragment_reasoning c)"
  by (simp add: chunk_step_def append_thinking_obj append_content_obj)

lemma consume_object_lines:
  "list_all (object_line loads) ls \<Longrightarrow>
   consume loads key ls (cp, tp) =
     Inr (cp @ concat (map (line_content loads key) ls), tp @ concat (map (line_reasoning loads) ls))"
proof (induction ls arbitrary: cp tp)
  case Nil
  then show ?case by simp
next
  case (Cons l ls)
  then show ?case
    by (auto simp: object_line_def fragment_of_def line_content_def line_reasoning_def
          chunk_step_obj Let_def
        split: option.splits json.splits if_splits)
qed

lemma join_strs_empty: "sep = [] \<Longrightarrow> join_strs sep xs = concat xs"
  by (induction sep xs rule: join_strs.induct) simp_all

lemma content_line_object: "list_all (content_line loads key) ls \<Longrightarrow> list_all (object_line loads) ls"
  by (induction ls) (simp_all add: content_line_def)

lemma content_line_strs:
  "list_all (content_line loads key) ls \<Longrightarrow>
   list_all isinstance_str (concat (map (line_content loads key) ls))"
  by (induction ls) (simp_all add: content_line_def)

lemma text_line_content: "list_all (text_line loads key) ls \<Longrightarrow> list_all (content_line loads key) ls"
  by (induction ls) (simp_all add: text_line_def)

lemma text_line_strs:
  "list_all (text_line loads key) ls \<Longrightarrow>
   list_all isinstance_str (concat (map (line_reasoning loads) ls))"
  by (induction ls) (simp_all add: text_line_def)

lemma concat_texts:
  "concat (map str_text (concat (map f ls))) = concat (map (\<lambda>l. concat (map str_text (f l))) ls)"
  by (induction ls) simp_all

lemma str_join_content:
  "list_all (content_line loads key) ls \<Longrightarrow>
   str_join [] (concat (map (line_content loads key) ls)) = Inr (stream_content loads key ls)"
  by (simp add: str_join_def content_line_strs join_strs_empty stream_content_def concat_texts)

lemma str_join_reasoning:
  "list_all (text_line loads key) ls \<Longrightarrow>
   str_join sep (concat (map (line_reasoning loads) ls)) = Inr (join_strs sep (stream_reasoning loads ls))"
  by (simp add: str_join_def text_line_strs stream_reasoning_def map_concat comp_def)

lemma stream_reasoning_empty:
  "(stream_reasoning loads ls = []) = (concat (map (line_reasoning loads) ls) = [])"
  by (simp add: stream_reasoning_def)




lemma fragment_reasoning_length: "length (fragment_reasoning c) \<le> 1"
  by (simp add: fragment_reasoning_def)

lemma fragment_reasoning_nested:
  "map_of c ''message'' = Some (JObj m) \<Longrightarrow> map_of m ''thinking'' = Some t \<Longrightarrow> truthy t \<Longrightarrow>
   fragment_reasoning c = [t]"
  by (simp add: fragment_reasoning_def nested_thinking_def dict_get_def)

lemma accumulate_text_lines:
  assumes "list_all (text_line loads key) (st_lines resp)" and "st_drop resp = None"
  shows "accumulate loads key resp =
           Inr ((if stream_reasoning loads (st_lines resp) = [] then []
                 else ''[Thinking] '' @ strip (join_strs '' '' (stream_reasoning loads (st_lines resp)))
                        @ newline @ newline)
                @ stream_content loads key (st_lines resp))"
proof -
  have c: "list_all (content_line loads key) (st_lines resp)"
    using assms(1) by (rule text_line_content)
  have o: "list_all (object_line loads) (st_lines resp)"
    using c by (rule content_line_object)
  show ?thesis
    using assms(2)
    by (simp add: accumulate_def read_stream_def consume_object_lines [OF o] finish_def
          str_join_content [OF c] str_join_reasoning [OF assms(1)] stream_reasoning_empty)
qed

lemma stream_reasoning_some:
  "(stream_reasoning loads ls \<noteq> []) = list_ex (\<lambda>l. line_reasoning loads l \<noteq> []) ls"
  by (induction ls) (simp_all add: stream_reasoning_def)

text \<open>
  Claim C2. For a body whose lines are blank, noise, or JSON objects with text fields,
  read to its end, the result is the content behind the block
  \<open>[Thinking] \<close>, the reasoning texts joined by spaces and trimmed, and a blank line
  exactly when some fragment contributed reasoning, and the bare content otherwise. One
  fragment appends at most one reasoning value, and a non-empty \<open>thinking\<close> value
  nested under \<open>message\<close> is the one appended, whatever the top level holds.
\<close>

theorem thinking_block_exactly_when_reasoning:
  assumes "list_all (text_line loads key) (st_lines resp)" and "st_drop resp = None"
  shows "accumulate loads key resp =
           Inr ((if stream_reasoning loads (st_lines resp) = [] then []
                 else ''[Thinking] '' @ strip (join_strs '' '' (stream_reasoning loads (st_lines resp)))
                        @ newline @ newline)
                @ stream_content loads key (st_lines resp))
         \<and> (stream_reasoning loads (st_lines resp) \<noteq> [])
             = list_ex (\<lambda>l. line_reasoning loads l \<noteq> []) (st_lines resp)
         \<and> (\<exists>cp. chunk_step key st (JObj c) = Inr (cp, snd st @ fragment_reasoning c))
         \<and> length (fragment_reasoning c) \<le> 1
         \<and> (map_of c ''message'' = Some (JObj m) \<and> map_of m ''thinking'' = Some t \<and> truthy t
              \<longrightarrow> fragment_reasoning c = [t])"
  using accumulate_text_lines [OF assms] fragment_reasoning_length [of c]
    fragment_reasoning_nested [of c m t] stream_reasoning_some [of loads "st_lines resp"]
  by (simp add: chunk_step_obj)

theorem thinking_block_exactly_when_reasoning_witness:
  \<open>list_all (text_line demo_loads ''response'')
     (st_lines \<lparr>st_status = 200,
        st_lines = [''{"thinking":"Hmm","response":"","done":false}'',
                    ''{"response":"Yes.","done":true}''],
        st_drop = None\<rparr>) \<and>
   st_drop \<lparr>st_status = 200,
        st_lines = [''{"thinking":"Hmm","response":"","done":false}'',
                    ''{"response":"Yes.","done":true}''],
        st_drop = None\<rparr> = None \<and>
   accumulate demo_loads ''response''
     \<lparr>st_status = 200,
      st_lines = [''{"thinking":"Hmm","response":"","done":false}'',
                  ''{"response":"Yes.","done":true}''],
      st_drop = None\<rparr> = Inr (''[Thinking] Hmm'' @ newline @ newline @ ''Yes.'') \<and>
   stream_reasoning demo_loads
     [''{"thinking":"Hmm","response":"","done":false}'',
      ''{"response":"Yes.","done":true}''] = [''Hmm''] \<and>
   map_of [(''message'', JObj [(''thinking'', JStr ''inner''), (''content'', JStr ''A'')]),
           (''thinking'', JStr ''outer''), (''content'', JStr ''B'')] ''message''
     = Some (JObj [(''thinking'', JStr ''inner''), (''content'', JStr ''A'')]) \<and>
   map_of [(''thinking'', JStr ''inner''), (''content'', JStr ''A'')] ''thinking''
     = Some (JStr ''inner'') \<and>
   truthy (JStr ''inner'') \<and>
   fragment_reasoning
     [(''message'', JObj [(''thinking'', JStr ''inner''), (''content'', JStr ''A'')]),
      (''thinking'', JStr ''outer''), (''content'', JStr ''B'')] = [JStr ''inner'']\<close>
proof -
  let ?ls = \<open>[''{"thinking":"Hmm","response":"","done":false}'',
              ''{"response":"Yes.","done":true}'']\<close>
  let ?resp = "\<lparr>st_status = 200, st_lines = ?ls, st_drop = None\<rparr>"
  let ?m = "[(''thinking'', JStr ''inner''), (''content'', JStr ''A'')]"
  let ?c = "[(''message'', JObj ?m), (''thinking'', JStr ''outer''), (''content'', JStr ''B'')]"
  have h1: "list_all (text_line demo_loads ''response'') (st_lines ?resp)"
    by (simp add: text_line_def content_line_def object_line_def line_content_def
          line_reasoning_def fragment_of_def strip_def is_space_def demo_loads_def
          content_part_def primary_content_def py_or_def fragment_reasoning_def
          nested_thinking_def dict_get_def)
  have h2: "st_drop ?resp = None" by simp
  have r: "stream_reasoning demo_loads ?ls = [''Hmm'']"
    by (simp add: stream_reasoning_def line_reasoning_def fragment_of_def strip_def is_space_def
          demo_loads_def fragment_reasoning_def nested_thinking_def dict_get_def)
  have v: "stream_content demo_loads ''response'' ?ls = ''Yes.''"
    by (simp add: stream_content_def line_content_def fragment_of_def strip_def
          is_space_def demo_loads_def content_part_def primary_content_def py_or_def)
  have s: "strip ''Hmm'' = ''Hmm''"
    by (simp add: strip_def is_space_def)
  show ?thesis
    using h1 h2
      thinking_block_exactly_when_reasoning [OF h1 h2, of "([], [])" ?c ?m "JStr ''inner''"]
    by (simp add: r v s)
qed


lemma content_part_nested:
  "map_of c ''message'' = Some (JObj m) \<Longrightarrow> map_of m key = Some v \<Longrightarrow>
   content_part key c = [py_or v (JStr [])]"
  by (simp add: content_part_def primary_content_def)

lemma content_part_top_level:
  "\<not> (\<exists>m v. map_of c ''message'' = Some (JObj m) \<and> map_of m key = Some v) \<Longrightarrow>
   content_part key c = (case map_of c key of None \<Rightarrow> [] | Some v \<Rightarrow> [py_or v (JStr [])])"
  by (auto simp: content_part_def primary_content_def split: option.splits json.splits)

text \<open>
  Claim C10. For every decoded object the loop body returns normally, whatever the
  \<open>message\<close> value is. When \<open>message\<close> is an object that has the content key,
  the nested value is appended (the empty string in place of a value that counts as
  false) and nothing else; in every other case the top-level key decides: its value is
  appended when it is present, nothing when it is absent.
\<close>

theorem content_lookup_nested_first:
  "chunk_step key st (JObj c) = Inr (fst st @ content_part key c, snd st @ fragment_reasoning c)
   \<and> (map_of c ''message'' = Some (JObj m) \<and> map_of m key = Some v
        \<longrightarrow> content_part key c = [py_or v (JStr [])])
   \<and> (\<not> (\<exists>m v. map_of c ''message'' = Some (JObj m) \<and> map_of m key = Some v)
        \<longrightarrow> content_part key c =
              (case map_of c key of None \<Rightarrow> [] | Some v \<Rightarrow> [py_or v (JStr [])]))"
  using content_part_nested [of c m key v] content_part_top_level [of c key]
  by (simp add: chunk_step_obj)

theorem content_lookup_nested_first_witness:
  "chunk_step ''content'' ([JStr ''x''], [])
     (JObj [(''message'', JObj [(''thinking'', JStr ''inner''), (''content'', JStr ''A'')]),
            (''thinking'', JStr ''outer''), (''content'', JStr ''B'')])
     = Inr ([JStr ''x'', JStr ''A''], [JStr ''inner''])
   \<and> chunk_step ''content'' ([JStr ''x''], [])
     (JObj [(''message'', JStr ''none''), (''content'', JStr ''B'')])
     = Inr ([JStr ''x'', JStr ''B''], [])"
proof -
  let ?m = "[(''thinking'', JStr ''inner''), (''content'', JStr ''A'')]"
  let ?c = "[(''message'', JObj ?m), (''thinking'', JStr ''outer''), (''content'', JStr ''B'')]"
  let ?d = "[(''message'', JStr ''none''), (''content'', JStr ''B'')]"
  have a: "map_of ?c ''message'' = Some (JObj ?m) \<and> map_of ?m ''content'' = Some (JStr ''A'')"
    by simp
  have b: "\<not> (\<exists>m v. map_of ?d ''message'' = Some (JObj m) \<and> map_of m ''content'' = Some v)"
    by simp
  have r1: "fragment_reasoning ?c = [JStr ''inner'']"
    by (simp add: fragment_reasoning_def nested_thinking_def dict_get_def)
  have r2: "fragment_reasoning ?d = []"
    by (simp add: fragment_reasoning_def nested_thinking_def dict_get_def)
  show ?thesis
    using a b
      content_lookup_nested_first [of "''content''" "([JStr ''x''], [])" ?c ?m "JStr ''A''"]
      content_lookup_nested_first [of "''content''" "([JStr ''x''], [])" ?d "[]" JNull]
    by (simp add: r1 r2 py_or_def)
qed







section \<open>Failures\<close>

lemma read_stream_drop:
  "st_drop resp = Some d \<Longrightarrow> \<exists>e. read_stream loads key resp = Inl e"
  by (cases "consume loads key (st_lines resp) ([], [])") (simp_all add: read_stream_def)

lemma accumulate_drop:
  "st_drop resp = Some d \<Longrightarrow> \<exists>e. accumulate loads key resp = Inl e"
  using read_stream_drop [of resp d loads key] by (auto simp: accumulate_def)

lemma accumulate_drop_object_lines:
  "st_drop resp = Some d \<Longrightarrow> list_all (object_line loads) (st_lines resp) \<Longrightarrow>
   accumulate loads key resp = Inl (TransportError d)"
  by (simp add: accumulate_def read_stream_def consume_object_lines)

lemma request_stream_drop:
  assumes "http_stream rt (stream_req rt path payload) = Inr resp" and "st_drop resp = Some d"
  shows "\<exists>e. request_stream rt path payload key = Inl e"
proof (cases "raise_for_status (st_status resp) []")
  case (Inl e)
  then show ?thesis using assms(1) by (simp add: request_stream_def)
next
  case (Inr u)
  then show ?thesis
    using assms(1) accumulate_drop [OF assms(2), of "json_loads rt" key]
    by (auto simp: request_stream_def)
qed

lemma request_stream_drop_object_lines:
  assumes "http_stream rt (stream_req rt path payload) = Inr resp" and "st_drop resp = Some d"
    and "200 \<le> st_status resp" and "st_status resp \<le> 299"
    and "list_all (object_line (json_loads rt)) (st_lines resp)"
  shows "request_stream rt path payload key = Inl (TransportError d)"
  using assms
  by (simp add: request_stream_def raise_for_status_def accumulate_drop_object_lines)

text \<open>
  Claim C3. When the connection fails after some lines of a streamed chat reply have
  been read, the fold ends in an exception and \<open>chat\<close> returns the failure text of
  that exception: nothing of the lines read so far is returned. When the status is a
  success and every line read is blank, noise or an object, the exception is the
  transport failure and the text is the request-failed message.
\<close>

theorem mid_stream_drop_discards_partial:
  assumes "http_stream rt (stream_req rt ''chat'' [(''model'', JStr model), (''messages'', messages)])
             = Inr resp"
    and "st_drop resp = Some d"
  shows "(\<exists>e. accumulate (json_loads rt) ''content'' resp = Inl e)
       \<and> (\<exists>e. request_stream rt ''chat'' [(''model'', JStr model), (''messages'', messages)] ''content''
                 = Inl e
              \<and> chat rt model messages True = Inr (JStr (failure_text rt [] e)))
       \<and> (200 \<le> st_status resp \<and> st_status resp \<le> 299
            \<and> list_all (object_line (json_loads rt)) (st_lines resp)
          \<longrightarrow> chat rt model messages True
                = Inr (JStr (''Ollama request failed: '' @ exc_str rt (TransportError d))))"
proof -
  let ?payload = "[(''model'', JStr model), (''messages'', messages)]"
  obtain e where e: "request_stream rt ''chat'' ?payload ''content'' = Inl e"
    using request_stream_drop [OF assms] by blast
  then have c: "chat rt model messages True = Inr (JStr (failure_text rt [] e))"
    by (simp add: chat_def chat_try_def except_clauses_def)
  have t: "200 \<le> st_status resp \<and> st_status resp \<le> 299
            \<and> list_all (object_line (json_loads rt)) (st_lines resp)
          \<longrightarrow> chat rt model messages True
                = Inr (JStr (''Ollama request failed: '' @ exc_str rt (TransportError d)))"
    using request_stream_drop_object_lines [OF assms, of "''content''"]
    by (simp add: chat_def chat_try_def except_clauses_def failure_text_def)
  show ?thesis
    using accumulate_drop [OF assms(2)] e c t by blast
qed

theorem mid_stream_drop_discards_partial_witness:
  \<open>chat (demo_runtime (backend_down ''down'')
           (backend_streams 200 [''{"message":{"content":"Hi"},"done":false}'']
              (Some ''connection dropped'')))
      ''m'' (JArr []) True
    = Inr (JStr ''Ollama request failed: connection dropped'')\<close>
proof -
  let ?resp = \<open>\<lparr>st_status = 200, st_lines = [''{"message":{"content":"Hi"},"done":false}''],
                st_drop = Some ''connection dropped''\<rparr>\<close>
  let ?rt = \<open>demo_runtime (backend_down ''down'')
           (backend_streams 200 [''{"message":{"content":"Hi"},"done":false}'']
              (Some ''connection dropped''))\<close>
  have h1: "http_stream ?rt (stream_req ?rt ''chat'' [(''model'', JStr ''m''), (''messages'', JArr [])])
             = Inr ?resp"
    by (simp add: demo_runtime_def backend_streams_def)
  have h2: "st_drop ?resp = Some ''connection dropped''" by simp
  have h3: "200 \<le> st_status ?resp \<and> st_status ?resp \<le> 299
            \<and> list_all (object_line (json_loads ?rt)) (st_lines ?resp)"
    by (simp add: demo_runtime_def object_line_def fragment_of_def strip_def is_space_def
          demo_loads_def)
  have x: "exc_str ?rt (TransportError ''connection dropped'') = ''connection dropped''"
    by (simp add: demo_runtime_def)
  show ?thesis
    using mid_stream_drop_discards_partial [OF h1 h2] h3 by (simp only: x) simp
qed

section \<open>The unary executor and the tools\<close>

lemma request_answer:
  assumes "http_request rt \<lparr>req_method = method, req_url = api_url rt path, req_json = kwargs\<rparr>
             = Inr resp"
  shows "request rt method path kwargs =
           (if 200 \<le> resp_status resp \<and> resp_status resp \<le> 299 then
              (if resp_content resp \<noteq> [] then
                 (case json_loads rt (resp_content resp) of
                    None \<Rightarrow> Inl JSONDecodeError
                  | Some v \<Rightarrow> Inr v)
               else Inr (JObj []))
            else Inl (HTTPStatusError (resp_status resp) (resp_content resp)))"
  using assms by (simp add: request_def raise_for_status_def)

text \<open>
  Claim C6. When the backend answers a unary request: a status outside 200..299 raises
  the HTTP status error with the status and the body; a success with a non-empty body
  that decodes returns the decoded value; a success with an empty body returns the
  empty object.
\<close>

theorem unary_request_outcomes:
  assumes "http_request rt \<lparr>req_method = method, req_url = api_url rt path, req_json = kwargs\<rparr>
             = Inr resp"
  shows "(\<not> (200 \<le> resp_status resp \<and> resp_status resp \<le> 299)
            \<longrightarrow> request rt method path kwargs
                  = Inl (HTTPStatusError (resp_status resp) (resp_content resp)))
       \<and> (200 \<le> resp_status resp \<and> resp_status resp \<le> 299 \<and> resp_content resp \<noteq> []
            \<and> json_loads rt (resp_content resp) = Some v
            \<longrightarrow> request rt method path kwargs = Inr v)
       \<and> (200 \<le> resp_status resp \<and> resp_status resp \<le> 299 \<and> resp_content resp = []
            \<longrightarrow> request rt method path kwargs = Inr (JObj []))"
  by (simp add: request_answer [OF assms])

theorem unary_request_outcomes_witness:
  \<open>request (demo_runtime (backend_answers 404 ''not found'') (backend_down ''down''))
      ''POST'' ''show'' None = Inl (HTTPStatusError 404 ''not found'')
   \<and> request (demo_runtime (backend_answers 200 ''{"response":"Generated text."}'')
               (backend_down ''down''))
      ''POST'' ''generate'' None = Inr (JObj [(''response'', JStr ''Generated text.'')])
   \<and> request (demo_runtime (backend_answers 200 ''[1]'') (backend_down ''down''))
      ''GET'' ''tags'' None = Inr (JArr [JInt 1])
   \<and> request (demo_runtime (backend_answers 200 []) (backend_down ''down''))
      ''DELETE'' ''delete'' None = Inr (JObj [])\<close>
proof -
  let ?r1 = "demo_runtime (backend_answers 404 ''not found'') (backend_down ''down'')"
  let ?r2 = \<open>demo_runtime (backend_answers 200 ''{"response":"Generated text."}'')
               (backend_down ''down'')\<close>
  let ?r3 = "demo_runtime (backend_answers 200 ''[1]'') (backend_down ''down'')"
  let ?r4 = "demo_runtime (backend_answers 200 []) (backend_down ''down'')"
  have a1: "http_request ?r1 \<lparr>req_method = ''POST'', req_url = api_url ?r1 ''show'', req_json = None\<rparr>
              = Inr \<lparr>resp_status = 404, resp_content = ''not found''\<rparr>"
    by (simp add: demo_runtime_def backend_answers_def)
  have a2: \<open>http_request ?r2
              \<lparr>req_method = ''POST'', req_url = api_url ?r2 ''generate'', req_json = None\<rparr>
              = Inr \<lparr>resp_status = 200, resp_content = ''{"response":"Generated text."}''\<rparr>\<close>
    by (simp add: demo_runtime_def backend_answers_def)
  have a3: "http_request ?r3 \<lparr>req_method = ''GET'', req_url = api_url ?r3 ''tags'', req_json = None\<rparr>
              = Inr \<lparr>resp_status = 200, resp_content = ''[1]''\<rparr>"
    by (simp add: demo_runtime_def backend_answers_def)
  have a4: "http_request ?r4
              \<lparr>req_method = ''DELETE'', req_url = api_url ?r4 ''delete'', req_json = None\<rparr>
              = Inr \<lparr>resp_status = 200, resp_content = []\<rparr>"
    by (simp add: demo_runtime_def backend_answers_def)
  have l2: \<open>json_loads ?r2 ''{"response":"Generated text."}''
              = Some (JObj [(''response'', JStr ''Generated text.'')])\<close>
    by (simp add: demo_runtime_def demo_loads_def)
  have l3: "json_loads ?r3 ''[1]'' = Some (JArr [JInt 1])"
    by (simp add: demo_runtime_def demo_loads_def)
  show ?thesis
    using unary_request_outcomes [OF a1]
      unary_request_outcomes [OF a2, of "JObj [(''response'', JStr ''Generated text.'')]"]
      unary_request_outcomes [OF a3, of "JArr [JInt 1]"]
      unary_request_outcomes [OF a4]
      l2 l3
    by simp
qed

lemma request_down:
  "\<forall>req. http_request rt req = Inl d \<Longrightarrow> request rt method path kwargs = Inl (TransportError d)"
  by (simp add: request_def)

lemma request_stream_down:
  "\<forall>req. http_stream rt req = Inl d \<Longrightarrow> request_stream rt path payload key = Inl (TransportError d)"
  by (simp add: request_stream_def)

lemma tool_try_down:
  assumes "\<forall>req. http_request rt req = Inl d" and "\<forall>req. http_stream rt req = Inl d"
  shows "tool_try rt c = Inl (TransportError d)"
proof (cases c)
  case (Chat model messages stream)
  then show ?thesis
    by (simp add: chat_try_def request_down [OF assms(1)] request_stream_down [OF assms(2)])
next
  case (Generate model prompt system stream)
  then show ?thesis
    by (simp add: generate_try_def Let_def request_down [OF assms(1)]
          request_stream_down [OF assms(2)])
qed (simp_all add: list_models_try_def list_running_models_try_def show_model_try_def
       embed_try_def pull_model_try_def delete_model_try_def Let_def request_down [OF assms(1)])

text \<open>The tail after the detail of a failed request: only \<open>list_models\<close> has one.\<close>

lemma call_tool_except:
  "call_tool rt c =
     except_clauses rt (if c = ListModels then ''. Is Ollama running at '' @ OLLAMA_BASE rt @ ''?'' else [])
       (tool_try rt c)"
  by (cases c)
     (simp_all add: list_models_def list_running_models_def show_model_def chat_def generate_def
        embed_def pull_model_def delete_model_def)

text \<open>
  Claim C5. Every call of a tool returns a value, never an exception. When its
  \<^verbatim>\<open>try\<close> block raises an HTTP error the result is the text
  \<open>Ollama request failed: \<close> followed by the detail (and a tail in
  \<open>list_models\<close>); when it raises anything else the result is \<open>Error: \<close>
  followed by the detail. With the backend unreachable every tool's block raises the
  transport failure.
\<close>

theorem tools_return_text_on_every_failure:
  "(\<exists>v. call_tool rt c = Inr v)
   \<and> (tool_try rt c = Inl e \<and> is_HTTPError e
        \<longrightarrow> (\<exists>tail. call_tool rt c
                       = Inr (JStr (''Ollama request failed: '' @ exc_str rt e @ tail))))
   \<and> (tool_try rt c = Inl e \<and> \<not> is_HTTPError e
        \<longrightarrow> call_tool rt c = Inr (JStr (''Error: '' @ exc_str rt e)))
   \<and> ((\<forall>req. http_request rt req = Inl d) \<and> (\<forall>req. http_stream rt req = Inl d)
        \<longrightarrow> tool_try rt c = Inl (TransportError d))"
proof -
  have a: "\<exists>v. call_tool rt c = Inr v"
    by (cases "tool_try rt c") (simp_all add: call_tool_except except_clauses_def)
  have b: "tool_try rt c = Inl e \<and> is_HTTPError e
        \<longrightarrow> (\<exists>tail. call_tool rt c
                       = Inr (JStr (''Ollama request failed: '' @ exc_str rt e @ tail)))"
    by (simp add: call_tool_except except_clauses_def failure_text_def)
  have c: "tool_try rt c = Inl e \<and> \<not> is_HTTPError e
        \<longrightarrow> call_tool rt c = Inr (JStr (''Error: '' @ exc_str rt e))"
    by (simp add: call_tool_except except_clauses_def failure_text_def)
  have d: "(\<forall>req. http_request rt req = Inl d) \<and> (\<forall>req. http_stream rt req = Inl d)
        \<longrightarrow> tool_try rt c = Inl (TransportError d)"
    using tool_try_down [of rt d c] by blast
  show ?thesis using a b c d by blast
qed

theorem tools_return_text_on_every_failure_witness:
  "tool_try (demo_runtime (backend_down ''down'') (backend_down ''down'')) ListModels
     = Inl (TransportError ''down'')
   \<and> (\<exists>tail. call_tool (demo_runtime (backend_down ''down'') (backend_down ''down'')) ListModels
                = Inr (JStr (''Ollama request failed: down'' @ tail)))
   \<and> tool_try (demo_runtime (backend_answers 200 ''[1]'') (backend_down ''down''))
        (PullModel ''m'' False) = Inl AttributeError
   \<and> call_tool (demo_runtime (backend_answers 200 ''[1]'') (backend_down ''down''))
        (PullModel ''m'' False) = Inr (JStr ''Error: AttributeError'')"
proof -
  let ?r1 = "demo_runtime (backend_down ''down'') (backend_down ''down'')"
  let ?r2 = "demo_runtime (backend_answers 200 ''[1]'') (backend_down ''down'')"
  have h1: "(\<forall>req. http_request ?r1 req = Inl ''down'') \<and> (\<forall>req. http_stream ?r1 req = Inl ''down'')"
    by (simp add: demo_runtime_def backend_down_def)
  have t1: "tool_try ?r1 ListModels = Inl (TransportError ''down'')"
    using tools_return_text_on_every_failure [of ?r1 ListModels "TransportError ''down''" "''down''"] h1
    by blast
  have x1: "exc_str ?r1 (TransportError ''down'') = ''down''"
    by (simp add: demo_runtime_def)
  have c1: "\<exists>tail. call_tool ?r1 ListModels = Inr (JStr (''Ollama request failed: down'' @ tail))"
    using tools_return_text_on_every_failure [of ?r1 ListModels "TransportError ''down''" "''down''"] t1
    by (simp add: x1)
  have t2: "tool_try ?r2 (PullModel ''m'' False) = Inl AttributeError"
    by (simp add: pull_model_try_def request_def raise_for_status_def demo_runtime_def
          backend_answers_def demo_loads_def)
  have x2: "exc_str ?r2 AttributeError = ''AttributeError''"
    by (simp add: demo_runtime_def)
  have c2: "call_tool ?r2 (PullModel ''m'' False) = Inr (JStr ''Error: AttributeError'')"
    using tools_return_text_on_every_failure [of ?r2 "PullModel ''m'' False" AttributeError "''down''"] t2
    by (simp add: x2)
  show ?thesis using t1 c1 t2 c2 by blast
qed

section \<open>The unary replies\<close>

lemma text_field_or_empty:
  "text_or_null (map_of d k) \<Longrightarrow> py_or (dict_get d k) (JStr []) = JStr (field_text (map_of d k))"
  by (auto simp: text_or_null_def field_text_def dict_get_def py_or_def
      split: option.splits json.splits)

lemma text_field_truthy:
  "text_or_null (map_of d k) \<Longrightarrow> truthy (dict_get d k) = (field_text (map_of d k) \<noteq> [])"
  by (auto simp: text_or_null_def field_text_def dict_get_def
      split: option.splits json.splits)

lemma text_field_fmt:
  "text_or_null (map_of d k) \<Longrightarrow> field_text (map_of d k) \<noteq> [] \<Longrightarrow>
   fmt rt (dict_get d k) = field_text (map_of d k)"
  by (auto simp: text_or_null_def field_text_def dict_get_def fmt_def
      split: option.splits json.splits)

lemma message_or_empty:
  "message_or_null data \<Longrightarrow> py_or (dict_get data ''message'') (JObj []) = JObj (message_fields data)"
  by (auto simp: message_or_null_def message_fields_def dict_get_def py_or_def
      split: option.splits json.splits)

lemma fmt_text: "fmt rt (JStr s) = s"
  by (simp add: fmt_def)

lemma chat_reply_text:
  assumes "message_or_null data"
    and "text_or_null (map_of (message_fields data) ''content'')"
    and "text_or_null (map_of (message_fields data) ''thinking'')"
  shows "chat_reply rt (JObj data)
           = Inr (JStr (reasoning_prefixed (map_of (message_fields data) ''thinking'')
                          (field_text (map_of (message_fields data) ''content''))))"
  by (cases "field_text (map_of (message_fields data) ''thinking'') = []")
     (simp_all add: chat_reply_def message_or_empty [OF assms(1)] text_field_or_empty [OF assms(2)]
        text_field_truthy [OF assms(3)] text_field_fmt [OF assms(3)] fmt_text
        reasoning_prefixed_def)

lemma generate_reply_text:
  assumes "text_or_null (map_of data ''response'')" and "text_or_null (map_of data ''thinking'')"
  shows "generate_reply rt (JObj data)
           = Inr (JStr (reasoning_prefixed (map_of data ''thinking'')
                          (field_text (map_of data ''response''))))"
  by (cases "field_text (map_of data ''thinking'') = []")
     (simp_all add: generate_reply_def text_field_or_empty [OF assms(1)]
        text_field_truthy [OF assms(2)] text_field_fmt [OF assms(2)] fmt_text
        reasoning_prefixed_def)

text \<open>
  Claim C9. A non-streaming \<open>chat\<close> whose reply has text fields under
  \<open>message\<close>, and a non-streaming \<open>generate\<close> whose reply has text fields at
  the top level, return the content (the empty text when it is null or missing) behind
  \<open>[Thinking] \<close>, the thinking text and a blank line when the thinking text is not
  empty, and the content alone otherwise.
\<close>

theorem unary_replies_carry_reasoning_prefix:
  "(request rt ''POST'' ''chat'' (Some (JObj (chat_payload model messages))) = Inr (JObj data)
      \<and> message_or_null data
      \<and> text_or_null (map_of (message_fields data) ''content'')
      \<and> text_or_null (map_of (message_fields data) ''thinking'')
    \<longrightarrow> chat rt model messages False
          = Inr (JStr (reasoning_prefixed (map_of (message_fields data) ''thinking'')
                         (field_text (map_of (message_fields data) ''content'')))))
   \<and> (request rt ''POST'' ''generate''
         (Some (JObj (AList.update ''stream'' (JBool False) (generate_payload model prompt system))))
        = Inr (JObj gdata)
      \<and> text_or_null (map_of gdata ''response'')
      \<and> text_or_null (map_of gdata ''thinking'')
    \<longrightarrow> generate rt model prompt system False
          = Inr (JStr (reasoning_prefixed (map_of gdata ''thinking'')
                         (field_text (map_of gdata ''response'')))))"
  by (simp add: chat_def chat_try_def generate_def generate_try_def except_clauses_def
        chat_reply_text generate_reply_text Let_def)

theorem unary_replies_carry_reasoning_prefix_witness:
  \<open>chat (demo_runtime
           (backend_answers 200
              ''{"message":{"role":"assistant","content":"Yes.","thinking":"Brief thought."}}'')
           (backend_down ''down''))
      ''m'' (JArr []) False
     = Inr (JStr (''[Thinking] Brief thought.'' @ newline @ newline @ ''Yes.''))
   \<and> generate (demo_runtime (backend_answers 200 ''{"response":"Generated text."}'')
                 (backend_down ''down''))
      ''m'' ''Say hi'' None False
     = Inr (JStr ''Generated text.'')\<close>
proof -
  let ?r1 = \<open>demo_runtime
           (backend_answers 200
              ''{"message":{"role":"assistant","content":"Yes.","thinking":"Brief thought."}}'')
           (backend_down ''down'')\<close>
  let ?r2 = \<open>demo_runtime (backend_answers 200 ''{"response":"Generated text."}'')
                 (backend_down ''down'')\<close>
  let ?m = "[(''role'', JStr ''assistant''), (''content'', JStr ''Yes.''),
             (''thinking'', JStr ''Brief thought.'')]"
  let ?d = "[(''message'', JObj ?m)]"
  let ?g = "[(''response'', JStr ''Generated text.'')]"
  have q1: "request ?r1 ''POST'' ''chat'' (Some (JObj (chat_payload ''m'' (JArr [])))) = Inr (JObj ?d)"
    by (simp add: request_def raise_for_status_def demo_runtime_def backend_answers_def
          demo_loads_def)
  have f1: "message_fields ?d = ?m"
    by (simp add: message_fields_def)
  have h1: "message_or_null ?d \<and> text_or_null (map_of (message_fields ?d) ''content'')
            \<and> text_or_null (map_of (message_fields ?d) ''thinking'')"
    by (simp add: f1) (simp add: message_or_null_def text_or_null_def)
  have v1: "reasoning_prefixed (map_of (message_fields ?d) ''thinking'')
              (field_text (map_of (message_fields ?d) ''content''))
            = ''[Thinking] Brief thought.'' @ newline @ newline @ ''Yes.''"
    by (simp add: f1) (simp add: reasoning_prefixed_def field_text_def)
  have c1: "chat ?r1 ''m'' (JArr []) False
             = Inr (JStr (''[Thinking] Brief thought.'' @ newline @ newline @ ''Yes.''))"
    using unary_replies_carry_reasoning_prefix
            [where rt = ?r1 and model = "''m''" and messages = "JArr []" and data = ?d] q1 h1
    by (simp only: v1)
  have q2: "request ?r2 ''POST'' ''generate''
              (Some (JObj (AList.update ''stream'' (JBool False)
                             (generate_payload ''m'' ''Say hi'' None))))
            = Inr (JObj ?g)"
    by (simp add: request_def raise_for_status_def demo_runtime_def backend_answers_def
          demo_loads_def)
  have h2: "text_or_null (map_of ?g ''response'') \<and> text_or_null (map_of ?g ''thinking'')"
    by (simp add: text_or_null_def)
  have v2: "reasoning_prefixed (map_of ?g ''thinking'') (field_text (map_of ?g ''response''))
            = ''Generated text.''"
    by (simp add: reasoning_prefixed_def field_text_def)
  have c2: "generate ?r2 ''m'' ''Say hi'' None False = Inr (JStr ''Generated text.'')"
    using unary_replies_carry_reasoning_prefix
            [where rt = ?r2 and model = "''m''" and prompt = "''Say hi''" and system = None
               and gdata = ?g] q2 h2
    by (simp only: v2)
  show ?thesis using c1 c2 by blast
qed

section \<open>Where the code leaves its tests\<close>

text \<open>
  Claim C7, evaluated on the code. \<open>pull_model\<close> sends one unary request and decodes
  the whole body as one JSON value: a body of two status lines does not decode and the
  result is an error text, and a body of one status object gives the text
  \<open>Pull status: ...\<close>; no stream is opened (the streaming transport is down in both
  calls).
\<close>

theorem pull_model_reads_one_json_body:
  \<open>pull_model
      (demo_runtime
         (backend_answers 200
            (''{"status":"pulling manifest"}'' @ newline @ ''{"status":"success"}''))
         (backend_down ''down''))
      ''llama3.2'' False
     = Inr (JStr ''Error: JSONDecodeError'')
   \<and> pull_model
      (demo_runtime (backend_answers 200 ''{"status":"success"}'') (backend_down ''down''))
      ''llama3.2'' False
     = Inr (JStr ''Pull status: success. Check Ollama for progress.'')\<close>
  by (simp add: pull_model_def pull_model_try_def except_clauses_def failure_text_def
        request_def raise_for_status_def demo_runtime_def backend_answers_def demo_loads_def
        newline_def dict_get_default_def fmt_def)

text \<open>
  Claim C8, evaluated on the code. Eight tools are registered, \<open>copy_model\<close> is not
  among them, and every call that can be made names one of the eight.
\<close>

theorem eight_tools_without_copy_model:
  "length tool_names = 8 \<and> ''copy_model'' \<notin> set tool_names \<and> tool_name c \<in> set tool_names"
  by (cases c) (simp_all add: tool_names_def)


end
